theory Spec2Isabelle
  imports Main "HOL-Library.Word"
begin

section \<open>Validator Activity Process (package minipool)\<close>

text \<open>
  The process owns one flag, \<open>validatorActive\<close>, and one channel, \<open>stop\<close>, which is only
  ever closed. A closed channel is a boolean here; closing it a second time is the Go runtime
  panic "close of closed channel", which is a value of the model.
\<close>

text \<open>
  Modelled from the spec: the declarations of \<open>beaconchain.ServerMessage\<close> and
  \<open>beaconchain.ClientMessage\<close> are not part of the sources at hand; their fields are the
  ones the handler reads (\<open>Message\<close>, \<open>Pubkey\<close>, \<open>Status.Code\<close>, \<open>Action\<close>, \<open>Error\<close>) and
  the ones section 6 of the specification lists for the wire format.
\<close>

record ServerMessage =
  Message :: string
  MsgPubkey :: string
  StatusCode :: string
  Action :: string
  Error :: string

record ClientMessage =
  cmMessage :: string
  cmPubkey :: string

text \<open>
  An outbound payload is the JSON text of a \<open>ClientMessage\<close>. The encoding is injective on
  this struct, so a payload is identified with the message it encodes.
  \<open>json.Marshal\<close> cannot fail on a struct of two strings; the handler's error branch is
  kept in the model all the same.
\<close>

datatype payload = Json ClientMessage

definition json_Marshal :: "ClientMessage \<Rightarrow> string + payload" where
  "json_Marshal m = Inr (Json m)"

text \<open>
  The collaborators of the process: the JSON decoder applied to an inbound message, and the
  beacon client's \<open>Send\<close>, whose outcome may depend on how many payloads went before.
\<close>

record beacon_env =
  json_Unmarshal :: "string \<Rightarrow> string + ServerMessage"
  Beacon_Send :: "nat \<Rightarrow> payload \<Rightarrow> string option"

record ActivityProcess =
  pubkeyHex :: string
  validatorActive :: bool
  stopClosed :: bool
  subscribed :: bool
  sent :: "payload list"
  doneSignals :: nat
  proclog :: "string list"

datatype panic = CloseOfClosedChannel

definition logln :: "string \<Rightarrow> ActivityProcess \<Rightarrow> ActivityProcess" where
  "logln s p = p\<lparr>proclog := proclog p @ [s]\<rparr>"

text \<open>\<open>StartActivityProcess\<close>: the initial field values of the process.\<close>

definition StartActivityProcess :: "string \<Rightarrow> ActivityProcess" where
  "StartActivityProcess pk =
     \<lparr>pubkeyHex = pk, validatorActive = False, stopClosed = False, subscribed = True,
      sent = [], doneSignals = 0, proclog = []\<rparr>"

text \<open>\<open>p.p.Beacon.Send(payload)\<close>, with the log line of the caller when it fails.\<close>

definition send_payload :: "beacon_env \<Rightarrow> string \<Rightarrow> payload \<Rightarrow> ActivityProcess \<Rightarrow> ActivityProcess" where
  "send_payload env what pl p =
     (let p' = p\<lparr>sent := sent p @ [pl]\<rparr>
      in case Beacon_Send env (length (sent p)) pl of
           Some e \<Rightarrow> logln (what @ e) p'
         | None \<Rightarrow> p')"

definition onBeaconClientConnected :: "beacon_env \<Rightarrow> ActivityProcess \<Rightarrow> ActivityProcess" where
  "onBeaconClientConnected env p =
     (case json_Marshal \<lparr>cmMessage = ''get_validator_status'', cmPubkey = pubkeyHex p\<rparr> of
        Inl e \<Rightarrow> logln (''Error encoding get validator status payload: '' @ e) p
      | Inr pl \<Rightarrow> send_payload env ''Error sending get validator status message: '' pl p)"

text \<open>The inner switch on \<open>message.Status.Code\<close>; no default case, so other codes change nothing.\<close>

definition handleStatus :: "ActivityProcess \<Rightarrow> ServerMessage \<Rightarrow> panic + ActivityProcess" where
  "handleStatus p m =
     (if StatusCode m = ''inactive'' then
        Inr ((logln (''Validator '' @ MsgPubkey m @ '' is inactive, waiting until active to send activity...'') p)
               \<lparr>validatorActive := False\<rparr>)
      else if StatusCode m = ''active'' then
        Inr ((logln (''Validator '' @ MsgPubkey m @ '' is active, sending activity...'') p)
               \<lparr>validatorActive := True\<rparr>)
      else if StatusCode m = ''exited'' \<or> StatusCode m = ''withdrawable'' \<or> StatusCode m = ''withdrawn'' then
        (if stopClosed p then Inl CloseOfClosedChannel
         else Inr ((logln (''Validator '' @ MsgPubkey m @ '' has exited, not sending activity...'') p)
                     \<lparr>validatorActive := False, stopClosed := True\<rparr>))
      else Inr p)"

definition handleEpoch :: "beacon_env \<Rightarrow> ActivityProcess \<Rightarrow> ActivityProcess" where
  "handleEpoch env p =
     (if \<not> validatorActive p then p
      else
        (let p1 = logln (''New epoch, sending activity for validator '' @ pubkeyHex p @ ''...'') p
         in case json_Marshal \<lparr>cmMessage = ''activity'', cmPubkey = pubkeyHex p\<rparr> of
              Inl e \<Rightarrow> logln (''Error encoding activity payload: '' @ e) p1
            | Inr pl \<Rightarrow> send_payload env ''Error sending activity message: '' pl p1))"

definition onBeaconClientMessage :: "beacon_env \<Rightarrow> ActivityProcess \<Rightarrow> string \<Rightarrow> panic + ActivityProcess" where
  "onBeaconClientMessage env p messageData =
     (case json_Unmarshal env messageData of
        Inl e \<Rightarrow> Inr (logln (''Error decoding beacon message: '' @ e) p)
      | Inr m \<Rightarrow>
          if Message m = ''validator_status'' then
            (if pubkeyHex p \<noteq> MsgPubkey m then Inr p else handleStatus p m)
          else if Message m = ''epoch'' then Inr (handleEpoch env p)
          else if Message m = ''success'' then
            (if Action m = ''process_activity''
             then Inr (logln ''Processed validator activity successfully...'' p) else Inr p)
          else if Message m = ''error'' then
            Inr (logln (''A beacon server error occurred: '' @ Error m) p)
          else Inr p)"

text \<open>
  The goroutine of \<open>start\<close>: \<open>for subscribed { select { ... } }\<close>. A run of the loop is the
  list of cases the \<open>select\<close> took. Go chooses among the ready cases at random, so once
  \<open>stop\<close> is closed a pending message can still be taken before the stop case.
  Nobody sends on \<open>stop\<close>: while it is open its case is not ready and the entry is void.
\<close>

datatype select_case = ConnectedCase | MessageCase string | StopCase

definition select_step :: "beacon_env \<Rightarrow> ActivityProcess \<Rightarrow> select_case \<Rightarrow> panic + ActivityProcess" where
  "select_step env p c =
     (case c of
        ConnectedCase \<Rightarrow> Inr (onBeaconClientConnected env p)
      | MessageCase d \<Rightarrow> onBeaconClientMessage env p d
      | StopCase \<Rightarrow> if stopClosed p then Inr (p\<lparr>subscribed := False\<rparr>) else Inr p)"

fun event_loop :: "beacon_env \<Rightarrow> ActivityProcess \<Rightarrow> select_case list \<Rightarrow> panic + ActivityProcess" where
  "event_loop env p [] = Inr p"
| "event_loop env p (c # cs) =
     (if \<not> subscribed p then Inr p
      else case select_step env p c of
             Inl e \<Rightarrow> Inl e
           | Inr p' \<Rightarrow> event_loop env p' cs)"

text \<open>
  The calling thread of \<open>start\<close> blocks on \<open>stop\<close> (\<open>None\<close> while it is open), then logs and
  sends on \<open>done\<close>; the statement is straight-line code and runs at most once.
\<close>

definition start_main :: "ActivityProcess \<Rightarrow> ActivityProcess option" where
  "start_main p =
     (if stopClosed p
      then Some ((logln (''Ending validator '' @ pubkeyHex p @ '' activity process...'') p)
                   \<lparr>doneSignals := Suc (doneSignals p)\<rparr>)
      else None)"

subsection \<open>What the specification speaks about\<close>

definition is_activity :: "payload \<Rightarrow> bool" where
  "is_activity pl = (case pl of Json m \<Rightarrow> cmMessage m = ''activity'')"

definition heartbeats :: "ActivityProcess \<Rightarrow> payload list" where
  "heartbeats p = filter is_activity (sent p)"

definition is_epoch :: "beacon_env \<Rightarrow> select_case \<Rightarrow> bool" where
  "is_epoch env c =
     (case c of
        MessageCase d \<Rightarrow> (case json_Unmarshal env d of Inr m \<Rightarrow> Message m = ''epoch'' | Inl e \<Rightarrow> False)
      | _ \<Rightarrow> False)"

text \<open>
  The status a delivered event applies, if any: a decodable \<open>validator_status\<close> message for
  this key whose code is one of the five the process knows.
\<close>

definition applied_status :: "beacon_env \<Rightarrow> string \<Rightarrow> select_case \<Rightarrow> string option" where
  "applied_status env pk c =
     (case c of
        MessageCase d \<Rightarrow>
          (case json_Unmarshal env d of
             Inr m \<Rightarrow>
               if Message m = ''validator_status'' \<and> MsgPubkey m = pk \<and>
                  (StatusCode m = ''inactive'' \<or> StatusCode m = ''active'' \<or> StatusCode m = ''exited'' \<or>
                   StatusCode m = ''withdrawable'' \<or> StatusCode m = ''withdrawn'')
               then Some (StatusCode m) else None
           | Inl e \<Rightarrow> None)
      | _ \<Rightarrow> None)"

definition later_status :: "string option \<Rightarrow> string option \<Rightarrow> string option" where
  "later_status acc new = (case new of Some s \<Rightarrow> Some s | None \<Rightarrow> acc)"

definition last_applied_status :: "beacon_env \<Rightarrow> string \<Rightarrow> string option \<Rightarrow> select_case list \<Rightarrow> string option" where
  "last_applied_status env pk acc cs = foldl (\<lambda>a c. later_status a (applied_status env pk c)) acc cs"

text \<open>A decoder for examples: the message text is the message name, a colon, the status code.\<close>

definition demo_decode :: "string \<Rightarrow> string + ServerMessage" where
  "demo_decode d =
     (if d = ''epoch'' then Inr \<lparr>Message = ''epoch'', MsgPubkey = '''', StatusCode = '''', Action = '''', Error = ''''\<rparr>
      else if d = ''active'' then Inr \<lparr>Message = ''validator_status'', MsgPubkey = ''ab'', StatusCode = ''active'', Action = '''', Error = ''''\<rparr>
      else if d = ''inactive'' then Inr \<lparr>Message = ''validator_status'', MsgPubkey = ''ab'', StatusCode = ''inactive'', Action = '''', Error = ''''\<rparr>
      else if d = ''exited'' then Inr \<lparr>Message = ''validator_status'', MsgPubkey = ''ab'', StatusCode = ''exited'', Action = '''', Error = ''''\<rparr>
      else if d = ''withdrawn'' then Inr \<lparr>Message = ''validator_status'', MsgPubkey = ''ab'', StatusCode = ''withdrawn'', Action = '''', Error = ''''\<rparr>
      else Inl ''invalid character'')"

definition demo_env :: beacon_env where
  "demo_env = \<lparr>json_Unmarshal = demo_decode, Beacon_Send = (\<lambda>n pl. None)\<rparr>"

section \<open>Watchtower duty engine: the solo migration check (package watchtower)\<close>

subsection \<open>Go values\<close>

type_synonym uint64 = "64 word"
type_synonym address = "160 word"
type_synonym ValidatorPubkey = "384 word"

text \<open>
  \<open>time.Duration\<close> is an \<open>int64\<close> count of nanoseconds: a 64-bit word read with \<open>sint\<close>, so
  that the conversions and the multiplications by \<open>time.Second\<close> the source writes wrap as
  they do in Go. A \<open>time.Time\<close> is an instant in nanoseconds since the Unix epoch; its range
  (hundreds of billions of years) is not modelled, the instant is an unbounded integer.
  \<open>Time.Sub\<close> saturates at the least and the greatest \<open>Duration\<close>, as documented.
\<close>

type_synonym Duration = "64 word"
type_synonym Time = int

definition Second :: Duration where
  "Second = 1000000000"

definition time_Unix :: "64 word \<Rightarrow> Time" where
  "time_Unix sec = sint sec * 1000000000"

definition Time_Add :: "Time \<Rightarrow> Duration \<Rightarrow> Time" where
  "Time_Add t d = t + sint d"

definition Time_Sub :: "Time \<Rightarrow> Time \<Rightarrow> Duration" where
  "Time_Sub t u =
     (let d = t - u
      in if d < - (2 ^ 63) then word_of_int (- (2 ^ 63))
         else if 2 ^ 63 - 1 < d then word_of_int (2 ^ 63 - 1)
         else word_of_int d)"

text \<open>Go converts a float to an integer by dropping the fraction (towards zero).\<close>

definition trunc_quot :: "int \<Rightarrow> int \<Rightarrow> int" where
  "trunc_quot a b = sgn a * sgn b * (\<bar>a\<bar> div \<bar>b\<bar>)"

text \<open>
  \<open>math/big\<close>: \<open>Div\<close> is Euclidean division, \<open>Uint64\<close> and \<open>Int64\<close> keep the low 64 bits of
  the magnitude (\<open>Int64\<close> then restores the sign).
\<close>

definition big_Div :: "int \<Rightarrow> int \<Rightarrow> int" where
  "big_Div x y = sgn y * (x div \<bar>y\<bar>)"

definition big_Uint64 :: "int \<Rightarrow> uint64" where
  "big_Uint64 x = word_of_int \<bar>x\<bar>"

definition big_Int64 :: "int \<Rightarrow> 64 word" where
  "big_Int64 x = (if x < 0 then - word_of_int \<bar>x\<bar> else word_of_int \<bar>x\<bar>)"

subsection \<open>Constants\<close>

definition blsPrefix :: "8 word" where
  "blsPrefix = 0"

definition elPrefix :: "8 word" where
  "elPrefix = 1"

definition threshold :: uint64 where
  "threshold = 32000000000"

text \<open>
  Modelled from the spec: \<open>eth.WeiPerGwei\<close> and \<open>eth.GweiToWei\<close> belong to a library that is
  not part of the sources at hand. \<open>buffer\<close> is \<open>uint64(migrationBalanceBuffer * eth.WeiPerGwei)\<close>
  with \<open>migrationBalanceBuffer = 0.001\<close>, the 1_000_000 of the specification;
  \<open>oneGwei\<close> is \<open>eth.GweiToWei(1)\<close>, the number of wei in one gwei.
\<close>

definition buffer :: uint64 where
  "buffer = 1000000"

definition oneGwei :: int where
  "oneGwei = 1000000000"

definition ValidatorState_ActiveOngoing :: string where
  "ValidatorState_ActiveOngoing = ''active_ongoing''"

subsection \<open>The network state snapshot\<close>

text \<open>
  Modelled from the spec: the declarations of the snapshot types (package \<open>state\<close>, the
  minipool details and the beacon validator status) are not part of the sources at hand. The
  fields are those \<open>checkSoloMigrations\<close> reads, with the Go types its expressions force:
  \<open>*big.Int\<close> is an unbounded integer, a validator state is a string, and withdrawal
  credentials are a fixed-size byte array, kept as its first byte and the remaining bytes.
\<close>

type_synonym Hash = "8 word \<times> 8 word list"

datatype MinipoolStatus = Initialized | Prelaunch | Staking | Withdrawable | Dissolved

record NativeMinipoolDetails =
  MinipoolAddress :: address
  Status :: MinipoolStatus
  IsVacant :: bool
  Pubkey :: ValidatorPubkey
  PreMigrationBalance :: int
  Balance :: int
  WithdrawalCredentials :: Hash
  StatusTime :: int

record ValidatorStatus =
  vExists :: bool
  vStatus :: string
  vWithdrawalCredentials :: Hash
  vBalance :: uint64

text \<open>Indexing a Go map with an absent key gives the zero value of the element type.\<close>

definition zero_ValidatorStatus :: ValidatorStatus where
  "zero_ValidatorStatus =
     \<lparr>vExists = False, vStatus = [], vWithdrawalCredentials = (0, replicate 31 0), vBalance = 0\<rparr>"

record Eth2Config =
  GenesisTime :: uint64
  SecondsPerSlot :: uint64

record NetworkDetailsT =
  PromotionScrubPeriod :: Duration

record NetworkState =
  BeaconSlotNumber :: uint64
  ElBlockNumber :: uint64
  BeaconConfig :: Eth2Config
  NetworkDetails :: NetworkDetailsT
  MinipoolDetails :: "NativeMinipoolDetails list"
  ValidatorDetails :: "ValidatorPubkey \<rightharpoonup> ValidatorStatus"

definition lookupValidator :: "NetworkState \<Rightarrow> ValidatorPubkey \<Rightarrow> ValidatorStatus" where
  "lookupValidator state pk =
     (case ValidatorDetails state pk of None \<Rightarrow> zero_ValidatorStatus | Some v \<Rightarrow> v)"

subsection \<open>The task, its logs and its collaborators\<close>

text \<open>
  The reason handed to \<open>scrubVacantMinipool\<close> is a formatted string in the source; here it
  is the format (the constructor) with the values it interpolates. Log lines are kept the
  same way; \<open>printMessage\<close> puts the task's prefix in front.
\<close>

text \<open>
  Go errors: a message, or one of the wrappers the task builds with \<open>fmt.Errorf\<close> (around the
  address of the minipool, around a failed gas estimate, and behind the task's prefix).
\<close>

datatype error =
    Err string
  | Err_scrubbing address error
  | Err_estimate error
  | Err_task string error

datatype reason =
    NotOnBeacon address ValidatorPubkey
  | WrongState address ValidatorPubkey string
  | TimedOut Time Time Duration
  | CredentialsMismatch Hash Hash
  | UnexpectedPrefix Hash
  | BelowThreshold uint64 uint64
  | BelowCreationBalance uint64 uint64 uint64

datatype msg =
    Text string
  | Fmt_Checking uint64 uint64
  | Fmt_Minipool address
  | Fmt_Reason reason
  | Fmt_Success address
  | Fmt_Error error

datatype log_line = Plain msg | Prefixed string msg

record TransactOpts =
  GasFeeCap :: int
  GasTipCap :: int
  GasLimit :: uint64

record GasInfo =
  EstGasLimit :: uint64
  SafeGasLimit :: uint64

text \<open>
  The mutable part of the \<open>checkSoloMigrations\<close> struct and what the task does to the
  outside: the two loggers, every call of \<open>scrubVacantMinipool\<close> (the scrub decisions), and
  every call of \<open>VoteScrub\<close> (the transactions handed to the execution client).
\<close>

record task =
  isRunning :: bool
  generationPrefix :: string
  tlog :: "log_line list"
  errLog :: "log_line list"
  scrubCalls :: "(address \<times> reason) list"
  votes :: "(address \<times> TransactOpts) list"

text \<open>
  The collaborators behind narrow interfaces: contract binding, wallet, gas estimation, the
  fee gate, submission and the wait for inclusion. Their own console output is outside the
  model. \<open>WallClock\<close> is the clock of the machine the task runs on.
\<close>

record backend =
  NewMinipool :: "address \<Rightarrow> error + address"
  GetNodeAccountTransactor :: "error + TransactOpts"
  EstimateVoteScrubGas :: "address \<Rightarrow> TransactOpts \<Rightarrow> error + GasInfo"
  WatchtowerMaxFee :: int
  WatchtowerPrioFee :: int
  PrintAndCheckGasInfo :: "GasInfo \<Rightarrow> int \<Rightarrow> bool"
  VoteScrub :: "address \<Rightarrow> TransactOpts \<Rightarrow> error + nat"
  PrintAndWaitForTransaction :: "nat \<Rightarrow> error option"
  WallClock :: Time

definition printMessage :: "msg \<Rightarrow> task \<Rightarrow> task" where
  "printMessage m t = t\<lparr>tlog := tlog t @ [Prefixed (generationPrefix t) m]\<rparr>"

definition handleError :: "error \<Rightarrow> task \<Rightarrow> task" where
  "handleError err t =
     t\<lparr>errLog := errLog t @ [Plain (Fmt_Error err), Plain (Text ''*** Solo migration check failed. ***'')],
       isRunning := False\<rparr>"

subsection \<open>The transaction submission pipeline\<close>

definition scrubVacantMinipool :: "backend \<Rightarrow> task \<Rightarrow> address \<Rightarrow> reason \<Rightarrow> error option \<times> task" where
  "scrubVacantMinipool b t addr why =
     (let t1 = printMessage (Text ''================================'')
                (printMessage (Fmt_Reason why)
                  (printMessage (Fmt_Minipool addr)
                    (printMessage (Text ''=== SCRUBBING SOLO MIGRATION ==='') t)));
          t2 = t1\<lparr>scrubCalls := scrubCalls t1 @ [(addr, why)]\<rparr>
      in case NewMinipool b addr of
           Inl e \<Rightarrow> (Some (Err_scrubbing addr e), t2)
         | Inr mp \<Rightarrow>
        (case GetNodeAccountTransactor b of
           Inl e \<Rightarrow> (Some e, t2)
         | Inr opts \<Rightarrow>
        (case EstimateVoteScrubGas b mp opts of
           Inl e \<Rightarrow> (Some (Err_estimate e), t2)
         | Inr gasInfo \<Rightarrow>
        (let maxFee = WatchtowerMaxFee b
         in if \<not> PrintAndCheckGasInfo b gasInfo maxFee then (None, t2)
            else
              (let opts' = opts\<lparr>GasFeeCap := maxFee, GasTipCap := WatchtowerPrioFee b,
                                  GasLimit := SafeGasLimit gasInfo\<rparr>;
                   t3 = t2\<lparr>votes := votes t2 @ [(mp, opts')]\<rparr>
               in case VoteScrub b mp opts' of
                    Inl e \<Rightarrow> (Some e, t3)
                  | Inr hash \<Rightarrow>
                 (case PrintAndWaitForTransaction b hash of
                    Some e \<Rightarrow> (Some e, t3)
                  | None \<Rightarrow> (None, t3\<lparr>tlog := tlog t3 @ [Plain (Fmt_Success mp)]\<rparr>)))))))"

text \<open>Every call site in the scan is a bare call statement: the returned error is dropped.\<close>

definition scrub :: "backend \<Rightarrow> address \<Rightarrow> reason \<Rightarrow> task \<Rightarrow> task" where
  "scrub b addr why t = snd (scrubVacantMinipool b t addr why)"

subsection \<open>The scan\<close>

text \<open>
  \<open>scrubThreshold\<close>: \<open>PromotionScrubPeriod.Seconds() * 0.85\<close> is a float64 product in the
  source. It is taken here as the exact rational \<open>ns * 85 / (100 * 10^9)\<close>; the conversion to
  \<open>Duration\<close> drops the fraction, and the product with \<open>time.Second\<close> is an int64 product.
\<close>

definition scrubThreshold :: "NetworkState \<Rightarrow> Duration" where
  "scrubThreshold state =
     word_of_int (trunc_quot (sint (PromotionScrubPeriod (NetworkDetails state)) * 85) (100 * 1000000000))
       * Second"

definition blockTime :: "NetworkState \<Rightarrow> Time" where
  "blockTime state =
     (let genesisTime = time_Unix (GenesisTime (BeaconConfig state));
          secondsForSlot = (BeaconSlotNumber state * SecondsPerSlot (BeaconConfig state)) * Second
      in Time_Add genesisTime secondsForSlot)"

definition creationBalanceGwei :: "NativeMinipoolDetails \<Rightarrow> uint64" where
  "creationBalanceGwei mpd = big_Uint64 (big_Div (PreMigrationBalance mpd) oneGwei)"

definition minipoolBalanceGwei :: "NativeMinipoolDetails \<Rightarrow> uint64" where
  "minipoolBalanceGwei mpd = big_Uint64 (big_Div (Balance mpd) oneGwei)"

definition currentBalance :: "NativeMinipoolDetails \<Rightarrow> ValidatorStatus \<Rightarrow> uint64" where
  "currentBalance mpd validator = vBalance validator + minipoolBalanceGwei mpd"

text \<open>The loop body, in three pieces: the balance check (lines 197 to 212) \<dots>\<close>

definition checkBalance :: "backend \<Rightarrow> NativeMinipoolDetails \<Rightarrow> ValidatorStatus \<Rightarrow> task \<Rightarrow> task" where
  "checkBalance b mpd validator t =
     (let cur = currentBalance mpd validator;
          creation = creationBalanceGwei mpd
      in if cur < threshold
         then scrub b (MinipoolAddress mpd) (BelowThreshold cur threshold) t
         else if cur < creation - buffer
         then scrub b (MinipoolAddress mpd) (BelowCreationBalance cur creation buffer) t
         else t)"

text \<open>\<dots> the switch on the first byte of the validator's withdrawal credentials \<dots>\<close>

definition checkCredentials ::
  "backend \<Rightarrow> NetworkState \<Rightarrow> NativeMinipoolDetails \<Rightarrow> ValidatorStatus \<Rightarrow> task \<Rightarrow> task" where
  "checkCredentials b state mpd validator t =
     (let withdrawalCreds = vWithdrawalCredentials validator
      in if fst withdrawalCreds = blsPrefix then
           (let creationTime = time_Unix (big_Int64 (StatusTime mpd));
                remainingTime = Time_Sub (Time_Add creationTime (scrubThreshold state)) (blockTime state)
            in if sint remainingTime < 0
               then scrub b (MinipoolAddress mpd)
                      (TimedOut creationTime (blockTime state) (scrubThreshold state)) t
               else t)
         else if fst withdrawalCreds = elPrefix then
           (if withdrawalCreds \<noteq> WithdrawalCredentials mpd
            then scrub b (MinipoolAddress mpd)
                   (CredentialsMismatch (WithdrawalCredentials mpd) withdrawalCreds) t
            else checkBalance b mpd validator t)
         else scrub b (MinipoolAddress mpd) (UnexpectedPrefix withdrawalCreds) t)"

text \<open>
  \<dots> and the head of the body. The branch for a validator that does not exist has no
  \<open>continue\<close>: control goes on to the status test with the same record.
\<close>

definition checkMinipool :: "backend \<Rightarrow> NetworkState \<Rightarrow> task \<Rightarrow> NativeMinipoolDetails \<Rightarrow> task" where
  "checkMinipool b state t mpd =
     (if Status mpd = Dissolved then t
      else if \<not> IsVacant mpd then t
      else
        (let validator = lookupValidator state (Pubkey mpd);
             t1 = (if \<not> vExists validator
                   then scrub b (MinipoolAddress mpd) (NotOnBeacon (MinipoolAddress mpd) (Pubkey mpd)) t
                   else t)
         in if vStatus validator \<noteq> ValidatorState_ActiveOngoing
            then scrub b (MinipoolAddress mpd)
                   (WrongState (MinipoolAddress mpd) (Pubkey mpd) (vStatus validator)) t1
            else checkCredentials b state mpd validator t1))"

definition checkSoloMigrations :: "backend \<Rightarrow> NetworkState \<Rightarrow> task \<Rightarrow> error option \<times> task" where
  "checkSoloMigrations b state t =
     (None,
      foldl (checkMinipool b state)
        (printMessage (Fmt_Checking (BeaconSlotNumber state) (ElBlockNumber state)) t)
        (MinipoolDetails state))"

text \<open>The body of the goroutine that \<open>run\<close> starts, executed without interruption.\<close>

definition scanGoroutine :: "backend \<Rightarrow> NetworkState \<Rightarrow> task \<Rightarrow> task" where
  "scanGoroutine b state t =
     (let t1 = printMessage (Text ''Starting solo migration check in a separate thread.'')
                 (t\<lparr>isRunning := True\<rparr>)
      in case checkSoloMigrations b state t1 of
           (Some e, t2) \<Rightarrow> handleError (Err_task (generationPrefix t2) e) t2
         | (None, t2) \<Rightarrow> t2\<lparr>isRunning := False\<rparr>)"

subsection \<open>Invocations of \<open>run\<close> under interleaving\<close>

text \<open>
  Every access to \<open>isRunning\<close> is inside a \<open>Lock\<close>/\<open>Unlock\<close> pair, so each pair is one atomic
  step. An invocation of \<open>run\<close> (with the migration feature enabled) goes through: the test
  of the flag (lines 108 to 114), after which it has either returned or built the goroutine;
  the goroutine's first critical section, which sets the flag (lines 118 to 120) and is
  followed by the scan; and the critical section after the scan, which clears it (lines 129
  to 131, or \<open>handleError\<close>). A schedule names the invocation that takes the next step.
\<close>

datatype invocation = Invoked | ReturnedAlreadyRunning | Spawned | Scanning | Finished

definition thread_step :: "bool \<Rightarrow> invocation \<Rightarrow> bool \<times> invocation" where
  "thread_step running th =
     (case th of
        Invoked \<Rightarrow> if running then (running, ReturnedAlreadyRunning) else (running, Spawned)
      | Spawned \<Rightarrow> (True, Scanning)
      | Scanning \<Rightarrow> (False, Finished)
      | ReturnedAlreadyRunning \<Rightarrow> (running, ReturnedAlreadyRunning)
      | Finished \<Rightarrow> (running, Finished))"

definition sched_step :: "bool \<times> invocation list \<Rightarrow> nat \<Rightarrow> bool \<times> invocation list" where
  "sched_step cfg i =
     (if i < length (snd cfg)
      then (let r = thread_step (fst cfg) (snd cfg ! i) in (fst r, (snd cfg)[i := snd r]))
      else cfg)"

definition run_schedule :: "bool \<times> invocation list \<Rightarrow> nat list \<Rightarrow> bool \<times> invocation list" where
  "run_schedule cfg sched = foldl sched_step cfg sched"

definition scans_in_flight :: "bool \<times> invocation list \<Rightarrow> nat" where
  "scans_in_flight cfg = length (filter (\<lambda>th. th = Scanning) (snd cfg))"

subsection \<open>Scrub decisions as a function of the snapshot\<close>

text \<open>
  The calls of \<open>scrubVacantMinipool\<close> that one pass of the loop body makes, read off the
  three pieces above without the task and the collaborators.
\<close>

definition balanceDecisions :: "NativeMinipoolDetails \<Rightarrow> ValidatorStatus \<Rightarrow> (address \<times> reason) list" where
  "balanceDecisions mpd validator =
     (let cur = currentBalance mpd validator;
          creation = creationBalanceGwei mpd
      in if cur < threshold then [(MinipoolAddress mpd, BelowThreshold cur threshold)]
         else if cur < creation - buffer
         then [(MinipoolAddress mpd, BelowCreationBalance cur creation buffer)]
         else [])"

definition credentialDecisions ::
  "NetworkState \<Rightarrow> NativeMinipoolDetails \<Rightarrow> ValidatorStatus \<Rightarrow> (address \<times> reason) list" where
  "credentialDecisions state mpd validator =
     (let withdrawalCreds = vWithdrawalCredentials validator
      in if fst withdrawalCreds = blsPrefix then
           (let creationTime = time_Unix (big_Int64 (StatusTime mpd));
                remainingTime = Time_Sub (Time_Add creationTime (scrubThreshold state)) (blockTime state)
            in if sint remainingTime < 0
               then [(MinipoolAddress mpd, TimedOut creationTime (blockTime state) (scrubThreshold state))]
               else [])
         else if fst withdrawalCreds = elPrefix then
           (if withdrawalCreds \<noteq> WithdrawalCredentials mpd
            then [(MinipoolAddress mpd, CredentialsMismatch (WithdrawalCredentials mpd) withdrawalCreds)]
            else balanceDecisions mpd validator)
         else [(MinipoolAddress mpd, UnexpectedPrefix withdrawalCreds)])"

definition minipoolDecisions :: "NetworkState \<Rightarrow> NativeMinipoolDetails \<Rightarrow> (address \<times> reason) list" where
  "minipoolDecisions state mpd =
     (if Status mpd = Dissolved then []
      else if \<not> IsVacant mpd then []
      else
        (let validator = lookupValidator state (Pubkey mpd)
         in (if \<not> vExists validator
             then [(MinipoolAddress mpd, NotOnBeacon (MinipoolAddress mpd) (Pubkey mpd))] else [])
            @ (if vStatus validator \<noteq> ValidatorState_ActiveOngoing
               then [(MinipoolAddress mpd, WrongState (MinipoolAddress mpd) (Pubkey mpd) (vStatus validator))]
               else credentialDecisions state mpd validator)))"

definition snapshotDecisions :: "NetworkState \<Rightarrow> (address \<times> reason) list" where
  "snapshotDecisions state = concat (map (minipoolDecisions state) (MinipoolDetails state))"

text \<open>The decisions a run adds to those the task had made before.\<close>

definition new_scrubs :: "task \<Rightarrow> task \<Rightarrow> (address \<times> reason) list" where
  "new_scrubs t t' = drop (length (scrubCalls t)) (scrubCalls t')"

subsection \<open>Concrete tasks, collaborators and snapshots\<close>

text \<open>\<open>newCheckSoloMigrations\<close>: the field values a new task starts with.\<close>

definition newCheckSoloMigrations :: task where
  "newCheckSoloMigrations =
     \<lparr>isRunning = False, generationPrefix = ''[Solo Migration]'', tlog = [], errLog = [],
      scrubCalls = [], votes = []\<rparr>"

text \<open>
  Collaborators for examples: gas estimation, the fee gate and the submission each succeed
  or fail as the three flags say; everything else succeeds.
\<close>

definition demo_backend :: "bool \<Rightarrow> bool \<Rightarrow> bool \<Rightarrow> backend" where
  "demo_backend estimate_ok gate_ok vote_ok =
     \<lparr>NewMinipool = (\<lambda>a. Inr a),
      GetNodeAccountTransactor = Inr \<lparr>GasFeeCap = 0, GasTipCap = 0, GasLimit = 0\<rparr>,
      EstimateVoteScrubGas =
        (\<lambda>mp opts. if estimate_ok then Inr \<lparr>EstGasLimit = 100000, SafeGasLimit = 150000\<rparr>
                    else Inl (Err ''execution reverted'')),
      WatchtowerMaxFee = 200000000000,
      WatchtowerPrioFee = 3000000000,
      PrintAndCheckGasInfo = (\<lambda>g fee. gate_ok),
      VoteScrub = (\<lambda>mp opts. if vote_ok then Inr 7 else Inl (Err ''nonce too low'')),
      PrintAndWaitForTransaction = (\<lambda>h. None),
      WallClock = 0\<rparr>"

definition demo_creds :: Hash where
  "demo_creds = (1, replicate 31 170)"

text \<open>A vacant minipool with the given pre-migration balance (in wei) and no balance of its own.\<close>

definition demo_minipool :: "address \<Rightarrow> int \<Rightarrow> NativeMinipoolDetails" where
  "demo_minipool a pre =
     \<lparr>MinipoolAddress = a, Status = Prelaunch, IsVacant = True, Pubkey = 5,
      PreMigrationBalance = pre, Balance = 0, WithdrawalCredentials = demo_creds,
      StatusTime = 1700000000\<rparr>"

text \<open>An active validator with matching execution-style credentials and the given balance (in gwei).\<close>

definition demo_validator :: "uint64 \<Rightarrow> ValidatorStatus" where
  "demo_validator bal =
     \<lparr>vExists = True, vStatus = ''active_ongoing'', vWithdrawalCredentials = demo_creds, vBalance = bal\<rparr>"

definition demo_state :: "NativeMinipoolDetails list \<Rightarrow> (ValidatorPubkey \<rightharpoonup> ValidatorStatus) \<Rightarrow> NetworkState" where
  "demo_state mps vs =
     \<lparr>BeaconSlotNumber = 7800000, ElBlockNumber = 18500000,
      BeaconConfig = \<lparr>GenesisTime = 1606824023, SecondsPerSlot = 12\<rparr>,
      NetworkDetails = \<lparr>PromotionScrubPeriod = 10000000000000\<rparr>,
      MinipoolDetails = mps, ValidatorDetails = vs\<rparr>"

subsection \<open>The credential-prefix policy in the words of the specification\<close>

text \<open>
  Balances are amounts of gwei and times are instants, compared as numbers: the combined
  balance is the validator's balance plus the minipool's, the creation balance is the
  pre-migration balance in gwei, and "0.85 times the scrub period" is the exact product
  (both sides of the comparison are multiplied by 100 to stay within the integers).
\<close>

definition spec_combined_balance :: "NativeMinipoolDetails \<Rightarrow> ValidatorStatus \<Rightarrow> int" where
  "spec_combined_balance mpd v = uint (vBalance v) + Balance mpd div 1000000000"

definition spec_creation_balance :: "NativeMinipoolDetails \<Rightarrow> int" where
  "spec_creation_balance mpd = PreMigrationBalance mpd div 1000000000"

definition spec_prefix_policy :: "NetworkState \<Rightarrow> NativeMinipoolDetails \<Rightarrow> ValidatorStatus \<Rightarrow> bool" where
  "spec_prefix_policy state mpd v =
     (if fst (vWithdrawalCredentials v) = 0 then
        85 * sint (PromotionScrubPeriod (NetworkDetails state))
          < 100 * (blockTime state - StatusTime mpd * 1000000000)
      else if fst (vWithdrawalCredentials v) = 1 then
        (if vWithdrawalCredentials v = WithdrawalCredentials mpd
         then spec_combined_balance mpd v < 32000000000 \<or>
              spec_combined_balance mpd v < spec_creation_balance mpd - 1000000
         else True)
      else True)"

subsection \<open>Reading the logs\<close>

fun error_of_line :: "log_line \<Rightarrow> error list" where
  "error_of_line (Plain (Fmt_Error e)) = [e]"
| "error_of_line (Prefixed p (Fmt_Error e)) = [e]"
| "error_of_line l = []"

definition error_lines :: "log_line list \<Rightarrow> error list" where
  "error_lines ls = concat (map error_of_line ls)"

subsection \<open>Two states of an example process\<close>

definition demo_active :: ActivityProcess where
  "demo_active =
     \<lparr>pubkeyHex = ''ab'', validatorActive = True, stopClosed = False, subscribed = True,
      sent = [], doneSignals = 0,
      proclog = [''Validator ab is inactive, waiting until active to send activity...'',
                 ''Validator ab is active, sending activity...'']\<rparr>"

definition demo_beating :: ActivityProcess where
  "demo_beating =
     demo_active\<lparr>sent := [Json \<lparr>cmMessage = ''activity'', cmPubkey = ''ab''\<rparr>],
                 proclog := proclog demo_active @ [''New epoch, sending activity for validator ab...'']\<rparr>"

section \<open>Activity Process: results\<close>

lemma send_payload_fields [simp]:
  "sent (send_payload env w pl p) = sent p @ [pl]"
  "validatorActive (send_payload env w pl p) = validatorActive p"
  "stopClosed (send_payload env w pl p) = stopClosed p"
  "subscribed (send_payload env w pl p) = subscribed p"
  "pubkeyHex (send_payload env w pl p) = pubkeyHex p"
  by (simp_all add: send_payload_def logln_def Let_def split: option.splits)

lemma logln_fields [simp]:
  "sent (logln s p) = sent p"
  "validatorActive (logln s p) = validatorActive p"
  "stopClosed (logln s p) = stopClosed p"
  "subscribed (logln s p) = subscribed p"
  "pubkeyHex (logln s p) = pubkeyHex p"
  by (simp_all add: logln_def)

lemma connected_fields [simp]:
  "validatorActive (onBeaconClientConnected env p) = validatorActive p"
  "stopClosed (onBeaconClientConnected env p) = stopClosed p"
  "subscribed (onBeaconClientConnected env p) = subscribed p"
  "pubkeyHex (onBeaconClientConnected env p) = pubkeyHex p"
  "heartbeats (onBeaconClientConnected env p) = heartbeats p"
  by (simp_all add: onBeaconClientConnected_def json_Marshal_def heartbeats_def is_activity_def)

lemma handleEpoch_fields [simp]:
  "validatorActive (handleEpoch env p) = validatorActive p"
  "stopClosed (handleEpoch env p) = stopClosed p"
  "subscribed (handleEpoch env p) = subscribed p"
  "pubkeyHex (handleEpoch env p) = pubkeyHex p"
  by (simp_all add: handleEpoch_def json_Marshal_def Let_def)

lemma handleEpoch_heartbeats:
  "heartbeats (handleEpoch env p) =
     (if validatorActive p
      then heartbeats p @ [Json \<lparr>cmMessage = ''activity'', cmPubkey = pubkeyHex p\<rparr>]
      else heartbeats p)"
  by (simp add: handleEpoch_def json_Marshal_def Let_def heartbeats_def is_activity_def)

lemma handleStatus_fields:
  assumes "handleStatus p m = Inr p'"
  shows "sent p' = sent p" and "subscribed p' = subscribed p" and "pubkeyHex p' = pubkeyHex p"
  using assms by (auto simp: handleStatus_def split: if_splits)

lemma handleStatus_active:
  assumes "handleStatus p m = Inr p'"
  shows "validatorActive p' =
           (if StatusCode m = ''active'' then True
            else if StatusCode m = ''inactive'' \<or> StatusCode m = ''exited'' \<or>
                    StatusCode m = ''withdrawable'' \<or> StatusCode m = ''withdrawn'' then False
            else validatorActive p)"
  using assms by (auto simp: handleStatus_def split: if_splits)

lemma select_step_inv:
  assumes "select_step env p c = Inr p'" and "subscribed p'"
  shows "pubkeyHex p' = pubkeyHex p"
    and "validatorActive p' =
           (case applied_status env (pubkeyHex p) c of
              Some s \<Rightarrow> s = ''active'' | None \<Rightarrow> validatorActive p)"
  using assms
  by (auto simp: select_step_def onBeaconClientMessage_def applied_status_def
        handleStatus_fields handleStatus_active
      split: select_case.splits sum.splits if_splits)

text \<open>
  The flag tracks the last applied status: the invariant of the loop, for any starting
  state whose flag agrees with the status accumulated so far.
\<close>

lemma event_loop_active:
  assumes "event_loop env p cs = Inr p'" and "subscribed p'"
    and "validatorActive p = (acc = Some ''active'')"
  shows "pubkeyHex p' = pubkeyHex p \<and>
         validatorActive p' = (last_applied_status env (pubkeyHex p) acc cs = Some ''active'')"
  using assms
proof (induction cs arbitrary: p acc)
  case Nil
  then show ?case by (simp add: last_applied_status_def)
next
  case (Cons c cs)
  from Cons.prems(1,2) have sub: "subscribed p"
    by (auto split: if_splits)
  with Cons.prems(1) obtain q
    where q: "select_step env p c = Inr q" and rest: "event_loop env q cs = Inr p'"
    by (auto split: sum.splits)
  have subq: "subscribed q"
    using rest Cons.prems(2) by (cases cs) (auto split: if_splits)
  have pk: "pubkeyHex q = pubkeyHex p"
    using select_step_inv(1)[OF q subq] .
  have act: "validatorActive q = (later_status acc (applied_status env (pubkeyHex p) c) = Some ''active'')"
    using select_step_inv(2)[OF q subq] Cons.prems(3)
    by (auto simp: later_status_def split: option.splits)
  from Cons.IH[OF rest Cons.prems(2) act] pk
  show ?case by (simp add: last_applied_status_def)
qed

lemma select_step_heartbeats:
  assumes "select_step env p c = Inr p'"
  shows "heartbeats p' =
          (if is_epoch env c \<and> validatorActive p
           then heartbeats p @ [Json \<lparr>cmMessage = ''activity'', cmPubkey = pubkeyHex p\<rparr>]
           else heartbeats p)"
proof -
  have status: "heartbeats q = heartbeats p" if "handleStatus p m = Inr q" for m q
    using handleStatus_fields(1)[OF that] by (simp add: heartbeats_def)
  have logged: "heartbeats (logln l p) = heartbeats p" for l
    by (simp add: heartbeats_def)
  have stopped: "heartbeats (p\<lparr>subscribed := False\<rparr>) = heartbeats p"
    by (simp add: heartbeats_def)
  show ?thesis
    using assms
    by (auto simp: select_step_def onBeaconClientMessage_def is_epoch_def handleEpoch_heartbeats
          status logged stopped
        split: select_case.splits sum.splits if_splits)
qed

text \<open>
  C3. Let \<open>cs\<close> be the events a process has handled since its start (it has not panicked and
  its loop is still subscribed), and let \<open>c\<close> be the next event it handles. Then \<open>c\<close> hands a
  heartbeat (an "activity" payload for the process's key) to the beacon client if and only if
  \<open>c\<close> is an epoch event and the most recently applied \<open>validator_status\<close> message for this key
  in \<open>cs\<close> carried the status \<open>active\<close>. With no status applied yet, or after \<open>inactive\<close>, an
  epoch event sends nothing. "Sent" means handed to \<open>Beacon.Send\<close>; a failure of that call is
  only logged.
\<close>

theorem heartbeat_iff_active_then_epoch:
  assumes "event_loop env (StartActivityProcess pk) cs = Inr p"
    and "subscribed p"
    and "select_step env p c = Inr p'"
  shows "(heartbeats p' \<noteq> heartbeats p \<longleftrightarrow>
            is_epoch env c \<and> last_applied_status env pk None cs = Some ''active'') \<and>
         heartbeats p' =
            (if is_epoch env c \<and> last_applied_status env pk None cs = Some ''active''
             then heartbeats p @ [Json \<lparr>cmMessage = ''activity'', cmPubkey = pk\<rparr>]
             else heartbeats p)"
proof -
  have "validatorActive (StartActivityProcess pk) = (None = Some ''active'')"
    by (simp add: StartActivityProcess_def)
  from event_loop_active[OF assms(1,2) this]
  have pk: "pubkeyHex p = pk"
    and act: "validatorActive p = (last_applied_status env pk None cs = Some ''active'')"
    by (simp_all add: StartActivityProcess_def)
  show ?thesis
    using select_step_heartbeats[OF assms(3)] pk act by simp
qed

lemmas demo_process_defs =
  demo_env_def demo_decode_def StartActivityProcess_def select_step_def onBeaconClientMessage_def
  handleStatus_def handleEpoch_def json_Marshal_def send_payload_def logln_def
  demo_active_def demo_beating_def

theorem heartbeat_iff_active_then_epoch_witness:
  "event_loop demo_env (StartActivityProcess ''ab'') [MessageCase ''inactive'', MessageCase ''active'']
     = Inr demo_active \<and>
   subscribed demo_active \<and>
   select_step demo_env demo_active (MessageCase ''epoch'') = Inr demo_beating \<and>
   heartbeats demo_beating \<noteq> heartbeats demo_active \<and>
   heartbeats demo_beating = heartbeats demo_active @ [Json \<lparr>cmMessage = ''activity'', cmPubkey = ''ab''\<rparr>]"
proof -
  have h1: "event_loop demo_env (StartActivityProcess ''ab'')
              [MessageCase ''inactive'', MessageCase ''active''] = Inr demo_active"
    by (simp add: demo_process_defs)
  have h2: "subscribed demo_active"
    by (simp add: demo_active_def)
  have h3: "select_step demo_env demo_active (MessageCase ''epoch'') = Inr demo_beating"
    by (simp add: demo_process_defs)
  have e: "is_epoch demo_env (MessageCase ''epoch'')"
    by (simp add: is_epoch_def demo_env_def demo_decode_def)
  have l: "last_applied_status demo_env ''ab'' None [MessageCase ''inactive'', MessageCase ''active'']
             = Some ''active''"
    by (simp add: last_applied_status_def applied_status_def later_status_def demo_env_def demo_decode_def)
  from heartbeat_iff_active_then_epoch[OF h1 h2 h3] e l
  have "heartbeats demo_beating \<noteq> heartbeats demo_active \<and>
        heartbeats demo_beating = heartbeats demo_active @ [Json \<lparr>cmMessage = ''activity'', cmPubkey = ''ab''\<rparr>]"
    by simp
  with h1 h2 h3 show ?thesis by simp
qed

text \<open>
  C4, at the failing run. The \<open>select\<close> takes three pending messages in a row: an \<open>exited\<close>
  status for the process's key, an \<open>active\<close> status for it, and an epoch. The exit status is
  applied (\<open>stop\<close> is closed, no heartbeat has been sent), and the epoch after it still hands
  a heartbeat to the beacon client.
\<close>

theorem heartbeat_sent_after_exit:
  "map_sum id (\<lambda>p. (stopClosed p, heartbeats p))
     (event_loop demo_env (StartActivityProcess ''ab'') [MessageCase ''exited''])
     = Inr (True, []) \<and>
   last_applied_status demo_env ''ab'' None [MessageCase ''exited''] = Some ''exited'' \<and>
   map_sum id (\<lambda>p. (stopClosed p, heartbeats p))
     (event_loop demo_env (StartActivityProcess ''ab'')
        [MessageCase ''exited'', MessageCase ''active'', MessageCase ''epoch''])
     = Inr (True, [Json \<lparr>cmMessage = ''activity'', cmPubkey = ''ab''\<rparr>])"
  by (simp add: demo_process_defs heartbeats_def is_activity_def
        last_applied_status_def applied_status_def later_status_def)

text \<open>
  The calling thread of \<open>start\<close> cannot pass its \<open>select\<close> before \<open>stop\<close> is closed, and then
  sends on \<open>done\<close> once.
\<close>

lemma start_main_signals_once:
  "start_main p = None \<longleftrightarrow> \<not> stopClosed p"
  "start_main p = Some p' \<Longrightarrow> doneSignals p' = Suc (doneSignals p)"
  by (auto simp: start_main_def logln_def split: if_splits)

text \<open>
  C5, at the failing run. Two exit-family statuses for the process's key are handled in
  sequence: the second one closes the closed channel \<open>stop\<close>, and the process panics.
\<close>

theorem second_exit_status_panics:
  "event_loop demo_env (StartActivityProcess ''ab'') [MessageCase ''exited'', MessageCase ''withdrawn'']
     = Inl CloseOfClosedChannel"
  by (simp add: demo_process_defs)

section \<open>Watchtower: results\<close>

subsection \<open>What a call of the pipeline and a pass of the loop body change\<close>

lemma scrubVacantMinipool_scrubCalls:
  "scrubCalls (snd (scrubVacantMinipool b t a r)) = scrubCalls t @ [(a, r)]"
  by (simp add: scrubVacantMinipool_def printMessage_def Let_def split: sum.splits option.splits)

lemma scrubVacantMinipool_errLog:
  "errLog (snd (scrubVacantMinipool b t a r)) = errLog t"
  by (simp add: scrubVacantMinipool_def printMessage_def Let_def split: sum.splits option.splits)

lemma scrub_scrubCalls [simp]:
  "scrubCalls (scrub b a r t) = scrubCalls t @ [(a, r)]"
  by (simp add: scrub_def scrubVacantMinipool_scrubCalls)

lemma scrub_errLog [simp]:
  "errLog (scrub b a r t) = errLog t"
  by (simp add: scrub_def scrubVacantMinipool_errLog)

lemma checkBalance_scrubCalls:
  "scrubCalls (checkBalance b mpd v t) = scrubCalls t @ balanceDecisions mpd v"
  by (simp add: checkBalance_def balanceDecisions_def Let_def)

lemma checkCredentials_scrubCalls:
  "scrubCalls (checkCredentials b s mpd v t) = scrubCalls t @ credentialDecisions s mpd v"
  by (simp add: checkCredentials_def credentialDecisions_def Let_def checkBalance_scrubCalls)

lemma checkMinipool_scrubCalls:
  "scrubCalls (checkMinipool b s t mpd) = scrubCalls t @ minipoolDecisions s mpd"
  by (simp add: checkMinipool_def minipoolDecisions_def Let_def checkCredentials_scrubCalls)

lemma checkMinipool_errLog:
  "errLog (checkMinipool b s t mpd) = errLog t"
  by (simp add: checkMinipool_def checkCredentials_def checkBalance_def Let_def)

lemma foldl_checkMinipool_scrubCalls:
  "scrubCalls (foldl (checkMinipool b s) t mps) = scrubCalls t @ concat (map (minipoolDecisions s) mps)"
  by (induction mps arbitrary: t) (simp_all add: checkMinipool_scrubCalls)

lemma foldl_checkMinipool_errLog:
  "errLog (foldl (checkMinipool b s) t mps) = errLog t"
  by (induction mps arbitrary: t) (simp_all add: checkMinipool_errLog)

lemma checkSoloMigrations_scrubCalls:
  "scrubCalls (snd (checkSoloMigrations b s t)) = scrubCalls t @ snapshotDecisions s"
  by (simp add: checkSoloMigrations_def foldl_checkMinipool_scrubCalls snapshotDecisions_def
        printMessage_def)

lemma new_scrubs_checkMinipool:
  "new_scrubs t (checkMinipool b s t mpd) = minipoolDecisions s mpd"
  by (simp add: new_scrubs_def checkMinipool_scrubCalls)

lemma new_scrubs_checkSoloMigrations:
  "new_scrubs t (snd (checkSoloMigrations b s t)) = snapshotDecisions s"
  by (simp add: new_scrubs_def checkSoloMigrations_scrubCalls)

text \<open>
  Whatever the collaborators answer, the scan reports no error, writes nothing to the error
  logger and goes through every minipool of the snapshot.
\<close>

lemma scan_ignores_submission_errors:
  "fst (checkSoloMigrations b s t) = None"
  "errLog (snd (checkSoloMigrations b s t)) = errLog t"
  "errLog (scanGoroutine b s t) = errLog t"
  "new_scrubs t (snd (checkSoloMigrations b s t)) = concat (map (minipoolDecisions s) (MinipoolDetails s))"
  by (simp_all add: checkSoloMigrations_def scanGoroutine_def foldl_checkMinipool_errLog
        foldl_checkMinipool_scrubCalls printMessage_def new_scrubs_def)

lemmas demo_snapshot_defs =
  demo_state_def demo_minipool_def demo_validator_def demo_creds_def lookupValidator_def
  zero_ValidatorStatus_def ValidatorState_ActiveOngoing_def blsPrefix_def elPrefix_def
  threshold_def buffer_def oneGwei_def big_Uint64_def big_Div_def
  currentBalance_def creationBalanceGwei_def minipoolBalanceGwei_def
  minipoolDecisions_def credentialDecisions_def balanceDecisions_def

lemmas demo_pipeline_defs =
  demo_backend_def newCheckSoloMigrations_def scrubVacantMinipool_def printMessage_def

subsection \<open>The credential-prefix policy\<close>

lemma sint_word_of_int_64:
  assumes "- (2 ^ 63) \<le> k" and "k < 2 ^ 63"
  shows "sint (word_of_int k :: 64 word) = k"
  using assms by (simp add: sint_sbintrunc' signed_take_bit_int_eq_self)

lemma uint_word_of_int_64:
  assumes "0 \<le> k" and "k < 2 ^ 64"
  shows "uint (word_of_int k :: 64 word) = k"
  using assms by (simp add: uint_word_of_int_eq take_bit_int_eq_self)

lemma sint_Time_Sub_negative: "sint (Time_Sub t u) < 0 \<longleftrightarrow> t < u"
proof -
  consider "t - u < - (2 ^ 63)" | "2 ^ 63 - 1 < t - u" | "- (2 ^ 63) \<le> t - u" "t - u < 2 ^ 63"
    by linarith
  then show ?thesis
  proof cases
    case 1
    then show ?thesis by (simp add: Time_Sub_def Let_def)
  next
    case 2
    then show ?thesis by (simp add: Time_Sub_def Let_def)
  next
    case 3
    then have "sint (word_of_int (t - u) :: 64 word) = t - u"
      by (rule sint_word_of_int_64)
    with 3 show ?thesis by (simp add: Time_Sub_def Let_def)
  qed
qed

lemma threshold_exact:
  fixes P k :: int
  shows "(85 * P) div 100000000000 < k \<longleftrightarrow> 85 * P < 100000000000 * k"
  by linarith

lemma scrubThreshold_value:
  assumes "0 \<le> sint (PromotionScrubPeriod (NetworkDetails s))"
  shows "sint (scrubThreshold s)
           = ((85 * sint (PromotionScrubPeriod (NetworkDetails s))) div 100000000000) * 1000000000"
proof -
  let ?P = "sint (PromotionScrubPeriod (NetworkDetails s))"
  let ?q = "(85 * ?P) div 100000000000"
  have up: "?P < 2 ^ 63"
    using sint_lt[of "PromotionScrubPeriod (NetworkDetails s)"] by simp
  have t: "trunc_quot (?P * 85) (100 * 1000000000) = ?q"
    using assms by (simp add: trunc_quot_def sgn_if mult.commute)
  have q0: "0 \<le> ?q" using assms by simp
  have q1: "?q * 1000000000 < 2 ^ 63" using up by simp
  have "scrubThreshold s = word_of_int ?q * word_of_int 1000000000"
    unfolding scrubThreshold_def t Second_def by simp
  then have "scrubThreshold s = word_of_int (?q * 1000000000)"
    by (simp only: wi_hom_mult)
  moreover have "sint (word_of_int (?q * 1000000000) :: 64 word) = ?q * 1000000000"
    using q0 q1 by (intro sint_word_of_int_64) simp_all
  ultimately show ?thesis by simp
qed

lemma blockTime_value:
  assumes "uint (BeaconSlotNumber s) * uint (SecondsPerSlot (BeaconConfig s)) < 9223372036"
  shows "blockTime s
           = (sint (GenesisTime (BeaconConfig s))
                + uint (BeaconSlotNumber s) * uint (SecondsPerSlot (BeaconConfig s))) * 1000000000"
proof -
  define n where "n = uint (BeaconSlotNumber s) * uint (SecondsPerSlot (BeaconConfig s))"
  have n0: "0 \<le> n" by (simp add: n_def)
  have n1: "n < 9223372036" using assms by (simp add: n_def)
  have "BeaconSlotNumber s * SecondsPerSlot (BeaconConfig s) * Second
          = word_of_int (uint (BeaconSlotNumber s)) * word_of_int (uint (SecondsPerSlot (BeaconConfig s)))
              * word_of_int 1000000000"
    by (simp add: Second_def)
  also have "\<dots> = word_of_int (n * 1000000000)"
    by (simp only: wi_hom_mult n_def)
  finally have w: "BeaconSlotNumber s * SecondsPerSlot (BeaconConfig s) * Second
                     = word_of_int (n * 1000000000)" .
  have "- (2 ^ 63) \<le> n * 1000000000" and "n * 1000000000 < 2 ^ 63"
    using n0 n1 by simp_all
  then have "sint (word_of_int (n * 1000000000) :: 64 word) = n * 1000000000"
    by (rule sint_word_of_int_64)
  with w have "blockTime s = (sint (GenesisTime (BeaconConfig s)) + n) * 1000000000"
    by (simp add: blockTime_def Time_Add_def time_Unix_def Let_def algebra_simps)
  then show ?thesis by (simp only: n_def)
qed

lemma creationTime_value:
  assumes "0 \<le> StatusTime mpd" and "StatusTime mpd < 2 ^ 63"
  shows "time_Unix (big_Int64 (StatusTime mpd)) = StatusTime mpd * 1000000000"
proof -
  have "sint (word_of_int (StatusTime mpd) :: 64 word) = StatusTime mpd"
    using assms by (intro sint_word_of_int_64) simp_all
  with assms(1) show ?thesis
    by (simp add: time_Unix_def big_Int64_def)
qed

lemma timeout_decision:
  assumes "0 \<le> sint (PromotionScrubPeriod (NetworkDetails s))"
    and "uint (BeaconSlotNumber s) * uint (SecondsPerSlot (BeaconConfig s)) < 9223372036"
    and "0 \<le> StatusTime mpd" and "StatusTime mpd < 2 ^ 63"
  shows "sint (Time_Sub (Time_Add (time_Unix (big_Int64 (StatusTime mpd))) (scrubThreshold s)) (blockTime s)) < 0
           \<longleftrightarrow> 85 * sint (PromotionScrubPeriod (NetworkDetails s))
                 < 100 * (blockTime s - StatusTime mpd * 1000000000)"
proof -
  define P where "P = sint (PromotionScrubPeriod (NetworkDetails s))"
  define B where "B = sint (GenesisTime (BeaconConfig s))
              + uint (BeaconSlotNumber s) * uint (SecondsPerSlot (BeaconConfig s))"
  define S where "S = StatusTime mpd"
  define q where "q = (85 * P) div 100000000000"
  have bt: "blockTime s = B * 1000000000"
    unfolding B_def using assms(2) by (rule blockTime_value)
  have ct: "time_Unix (big_Int64 (StatusTime mpd)) = S * 1000000000"
    unfolding S_def using assms(3,4) by (rule creationTime_value)
  have thr: "sint (scrubThreshold s) = q * 1000000000"
    unfolding q_def P_def using assms(1) by (rule scrubThreshold_value)
  have "sint (Time_Sub (Time_Add (time_Unix (big_Int64 (StatusTime mpd))) (scrubThreshold s)) (blockTime s)) < 0
          \<longleftrightarrow> S * 1000000000 + q * 1000000000 < B * 1000000000"
    unfolding sint_Time_Sub_negative Time_Add_def ct thr bt ..
  also have "\<dots> \<longleftrightarrow> q < B - S"
    by linarith
  also have "\<dots> \<longleftrightarrow> 85 * P < 100000000000 * (B - S)"
    unfolding q_def by (rule threshold_exact)
  also have "\<dots> \<longleftrightarrow> 85 * P < 100 * (B * 1000000000 - S * 1000000000)"
    by (simp add: algebra_simps)
  finally show ?thesis
    by (simp only: bt P_def S_def)
qed

lemma balance_decision:
  assumes "0 \<le> Balance mpd" and "0 \<le> PreMigrationBalance mpd"
    and "uint (vBalance v) + Balance mpd div 1000000000 < 2 ^ 64"
    and "1000000 \<le> PreMigrationBalance mpd div 1000000000"
    and "PreMigrationBalance mpd div 1000000000 < 2 ^ 64"
  shows "balanceDecisions mpd v \<noteq> [] \<longleftrightarrow>
           spec_combined_balance mpd v < 32000000000 \<or>
           spec_combined_balance mpd v < spec_creation_balance mpd - 1000000"
proof -
  let ?mb = "Balance mpd div 1000000000"
  let ?pre = "PreMigrationBalance mpd div 1000000000"
  have mb0: "0 \<le> ?mb" using assms(1) by simp
  have mb1: "?mb < 2 ^ 64" using assms(3) uint_ge_0[of "vBalance v"] by linarith
  have mbw: "minipoolBalanceGwei mpd = word_of_int ?mb"
    using mb0 by (simp add: minipoolBalanceGwei_def big_Uint64_def big_Div_def oneGwei_def)
  have mbu: "uint (minipoolBalanceGwei mpd) = ?mb"
    unfolding mbw using mb0 mb1 by (rule uint_word_of_int_64)
  have cur: "uint (currentBalance mpd v) = spec_combined_balance mpd v"
    using assms(3) mbu
    by (simp add: currentBalance_def spec_combined_balance_def uint_add_lem[THEN iffD1])
  have pre0: "0 \<le> ?pre" using assms(2) by simp
  have crw: "creationBalanceGwei mpd = word_of_int ?pre"
    using pre0 by (simp add: creationBalanceGwei_def big_Uint64_def big_Div_def oneGwei_def)
  have cru: "uint (creationBalanceGwei mpd) = ?pre"
    unfolding crw using pre0 assms(5) by (rule uint_word_of_int_64)
  have "uint buffer \<le> uint (creationBalanceGwei mpd)"
    using assms(4) cru by (simp add: buffer_def)
  then have sub: "uint (creationBalanceGwei mpd - buffer) = spec_creation_balance mpd - 1000000"
    using cru by (simp add: uint_sub_lem[THEN iffD1] buffer_def spec_creation_balance_def)
  show ?thesis
    using cur sub by (simp add: balanceDecisions_def Let_def word_less_def threshold_def)
qed

text \<open>
  Where no 64-bit operation of the loop body wraps, the body decides as the policy of the
  specification says: a non-negative scrub period, slot times that fit a \<open>Duration\<close>, a
  status time that fits an \<open>int64\<close>, balances that fit a \<open>uint64\<close> even when added, and a
  pre-migration balance of at least the buffer. (The float64 product in \<open>scrubThreshold\<close>
  is the exact one here.)
\<close>

lemma prefix_policy_without_wraparound:
  assumes "Status mpd \<noteq> Dissolved" and "IsVacant mpd"
    and "ValidatorDetails s (Pubkey mpd) = Some v"
    and "vExists v" and "vStatus v = ValidatorState_ActiveOngoing"
    and "0 \<le> sint (PromotionScrubPeriod (NetworkDetails s))"
    and "uint (BeaconSlotNumber s) * uint (SecondsPerSlot (BeaconConfig s)) < 9223372036"
    and "0 \<le> StatusTime mpd" and "StatusTime mpd < 2 ^ 63"
    and "0 \<le> Balance mpd" and "0 \<le> PreMigrationBalance mpd"
    and "uint (vBalance v) + Balance mpd div 1000000000 < 2 ^ 64"
    and "1000000 \<le> PreMigrationBalance mpd div 1000000000"
    and "PreMigrationBalance mpd div 1000000000 < 2 ^ 64"
  shows "new_scrubs t (checkMinipool b s t mpd) \<noteq> [] \<longleftrightarrow> spec_prefix_policy s mpd v"
proof -
  have d: "minipoolDecisions s mpd = credentialDecisions s mpd v"
    using assms(1-5) by (simp add: minipoolDecisions_def lookupValidator_def)
  consider (bls) "fst (vWithdrawalCredentials v) = 0"
    | (el) "fst (vWithdrawalCredentials v) = 1"
    | (other) "fst (vWithdrawalCredentials v) \<noteq> 0" "fst (vWithdrawalCredentials v) \<noteq> 1"
    by blast
  then have "minipoolDecisions s mpd \<noteq> [] \<longleftrightarrow> spec_prefix_policy s mpd v"
  proof cases
    case bls
    then show ?thesis
      using timeout_decision[OF assms(6-9)]
      by (simp add: d credentialDecisions_def spec_prefix_policy_def blsPrefix_def Let_def)
  next
    case el
    then show ?thesis
      using balance_decision[OF assms(10-14)]
      by (simp add: d credentialDecisions_def spec_prefix_policy_def blsPrefix_def elPrefix_def Let_def)
  next
    case other
    then show ?thesis
      by (simp add: d credentialDecisions_def spec_prefix_policy_def blsPrefix_def elPrefix_def Let_def)
  qed
  then show ?thesis
    by (simp add: new_scrubs_checkMinipool)
qed

text \<open>
  The balance scenario of the specification: creation balance 32 ETH, validator balance
  31.999 ETH, minipool balance 0. The policy scrubs, and so does the loop body.
\<close>

lemma prefix_policy_balance_scenario:
  "spec_prefix_policy
     (demo_state [demo_minipool 1 32000000000000000000] [5 \<mapsto> demo_validator 31999000000])
     (demo_minipool 1 32000000000000000000) (demo_validator 31999000000) \<and>
   new_scrubs newCheckSoloMigrations
     (checkMinipool (demo_backend True True True)
        (demo_state [demo_minipool 1 32000000000000000000] [5 \<mapsto> demo_validator 31999000000])
        newCheckSoloMigrations (demo_minipool 1 32000000000000000000)) \<noteq> []"
proof -
  let ?m = "demo_minipool 1 32000000000000000000"
  let ?v = "demo_validator 31999000000"
  let ?s = "demo_state [?m] [5 \<mapsto> ?v]"
  have p: "spec_prefix_policy ?s ?m ?v"
    by (simp add: spec_prefix_policy_def spec_combined_balance_def spec_creation_balance_def
          demo_state_def demo_minipool_def demo_validator_def demo_creds_def)
  have "new_scrubs newCheckSoloMigrations
          (checkMinipool (demo_backend True True True) ?s newCheckSoloMigrations ?m) \<noteq> []
        \<longleftrightarrow> spec_prefix_policy ?s ?m ?v"
    by (rule prefix_policy_without_wraparound)
       (simp_all add: demo_state_def demo_minipool_def demo_validator_def
          ValidatorState_ActiveOngoing_def)
  with p show ?thesis by simp
qed

text \<open>
  C1, at the failing input. A vacant, non-dissolved minipool whose pre-migration balance is
  0 wei, with an existing \<open>active_ongoing\<close> validator of 32_000_000_000 gwei whose
  execution-style credentials match. The credentials agree, the combined balance is not
  below 32_000_000_000 and not below 0 - 1_000_000, so the policy of the specification does
  not scrub; the loop body does, with the creation-balance reason.
\<close>

theorem small_creation_balance_scrubbed_against_policy:
  "new_scrubs newCheckSoloMigrations
     (checkMinipool (demo_backend True True True)
        (demo_state [demo_minipool 1 0] [5 \<mapsto> demo_validator 32000000000])
        newCheckSoloMigrations (demo_minipool 1 0))
     = [(1, BelowCreationBalance 32000000000 0 1000000)] \<and>
   \<not> spec_prefix_policy (demo_state [demo_minipool 1 0] [5 \<mapsto> demo_validator 32000000000])
        (demo_minipool 1 0) (demo_validator 32000000000)"
proof -
  have "minipoolDecisions (demo_state [demo_minipool 1 0] [5 \<mapsto> demo_validator 32000000000])
          (demo_minipool 1 0) = [(1, BelowCreationBalance 32000000000 0 1000000)]"
    by (simp add: demo_snapshot_defs Let_def)
  moreover
  have "\<not> spec_prefix_policy (demo_state [demo_minipool 1 0] [5 \<mapsto> demo_validator 32000000000])
          (demo_minipool 1 0) (demo_validator 32000000000)"
    by (simp add: spec_prefix_policy_def spec_combined_balance_def spec_creation_balance_def
          demo_state_def demo_minipool_def demo_validator_def demo_creds_def)
  ultimately show ?thesis
    by (simp add: new_scrubs_checkMinipool)
qed

subsection \<open>Single flight\<close>

text \<open>
  An invocation that tests the flag while it is set returns without starting a scan and
  leaves the flag as it is.
\<close>

lemma run_returns_when_flag_is_set:
  "thread_step True Invoked = (True, ReturnedAlreadyRunning)"
  by (simp add: thread_step_def)

text \<open>
  C2, at the failing interleaving. Two invocations of \<open>run\<close>; each tests the flag before the
  goroutine of the other has set it (schedule: first, second, first, second). Both scans are
  then executing at the same time.
\<close>

theorem two_scans_in_flight:
  "run_schedule (False, [Invoked, Invoked]) [0, 1, 0, 1] = (True, [Scanning, Scanning]) \<and>
   scans_in_flight (run_schedule (False, [Invoked, Invoked]) [0, 1, 0, 1]) = 2"
  by (simp add: run_schedule_def sched_step_def thread_step_def scans_in_flight_def)

subsection \<open>A validator that is not on the beacon chain\<close>

lemma unseen_validator_decisions:
  assumes "Status mpd \<noteq> Dissolved" and "IsVacant mpd" and "ValidatorDetails s (Pubkey mpd) = None"
  shows "minipoolDecisions s mpd =
           [(MinipoolAddress mpd, NotOnBeacon (MinipoolAddress mpd) (Pubkey mpd)),
            (MinipoolAddress mpd, WrongState (MinipoolAddress mpd) (Pubkey mpd) [])]"
  using assms
  by (simp add: minipoolDecisions_def lookupValidator_def zero_ValidatorStatus_def
        ValidatorState_ActiveOngoing_def)

text \<open>
  C6, at the failing input. A vacant, non-dissolved minipool whose key has no entry in the
  validator map: one pass of the loop body calls \<open>scrubVacantMinipool\<close> twice for it, first
  with the reason "did not exist on Beacon yet", then with the reason "was in state" and the
  empty state of the zero-valued record.
\<close>

theorem unseen_validator_scrubbed_twice:
  "new_scrubs newCheckSoloMigrations
     (checkMinipool (demo_backend True True True) (demo_state [demo_minipool 1 0] Map.empty)
        newCheckSoloMigrations (demo_minipool 1 0))
     = [(1, NotOnBeacon 1 5), (1, WrongState 1 5 [])]"
proof -
  have "minipoolDecisions (demo_state [demo_minipool 1 0] Map.empty) (demo_minipool 1 0)
          = [(MinipoolAddress (demo_minipool 1 0),
              NotOnBeacon (MinipoolAddress (demo_minipool 1 0)) (Pubkey (demo_minipool 1 0))),
             (MinipoolAddress (demo_minipool 1 0),
              WrongState (MinipoolAddress (demo_minipool 1 0)) (Pubkey (demo_minipool 1 0)) [])]"
    by (rule unseen_validator_decisions) (simp_all add: demo_state_def demo_minipool_def)
  then show ?thesis
    by (simp add: new_scrubs_checkMinipool demo_minipool_def)
qed

subsection \<open>Errors of the submission\<close>

text \<open>
  C7, at the failing input. Two vacant minipools whose validator holds less than the
  threshold, and an execution client that rejects every submission. The pipeline returns the
  error for the first minipool; after the whole goroutine has run, the error logger is empty
  and the task's log holds no error line. (The second minipool is still classified.)
\<close>

theorem submission_error_is_dropped:
  "fst (scrubVacantMinipool (demo_backend True True False) newCheckSoloMigrations 1
          (BelowThreshold 31999000000 32000000000)) = Some (Err ''nonce too low'') \<and>
   errLog (scanGoroutine (demo_backend True True False)
             (demo_state [demo_minipool 1 32000000000000000000, demo_minipool 2 32000000000000000000]
                [5 \<mapsto> demo_validator 31999000000])
             newCheckSoloMigrations) = [] \<and>
   error_lines (tlog (scanGoroutine (demo_backend True True False)
             (demo_state [demo_minipool 1 32000000000000000000, demo_minipool 2 32000000000000000000]
                [5 \<mapsto> demo_validator 31999000000])
             newCheckSoloMigrations)) = [] \<and>
   scrubCalls (scanGoroutine (demo_backend True True False)
             (demo_state [demo_minipool 1 32000000000000000000, demo_minipool 2 32000000000000000000]
                [5 \<mapsto> demo_validator 31999000000])
             newCheckSoloMigrations)
     = [(1, BelowThreshold 31999000000 32000000000), (2, BelowThreshold 31999000000 32000000000)]"
  by (simp add: scanGoroutine_def checkSoloMigrations_def checkMinipool_def checkCredentials_def
        checkBalance_def scrub_def demo_pipeline_defs demo_snapshot_defs error_lines_def Let_def)

subsection \<open>The fee gate and the gas estimate\<close>

text \<open>
  C8. Once the contract binding and the transactor are there: if the gas estimate succeeds
  and the maximum-fee gate says no, \<open>scrubVacantMinipool\<close> returns no error and \<open>VoteScrub\<close>
  is not called; if the gas estimate fails, it returns that error (wrapped in "could not
  estimate the gas required to scrub the minipool") and \<open>VoteScrub\<close> is not called.
\<close>

theorem veto_and_estimate_failure_submit_nothing:
  assumes "NewMinipool b a = Inr mp" and "GetNodeAccountTransactor b = Inr opts"
  shows "(EstimateVoteScrubGas b mp opts = Inr g \<and> \<not> PrintAndCheckGasInfo b g (WatchtowerMaxFee b)
            \<longrightarrow> fst (scrubVacantMinipool b t a r) = None \<and>
                votes (snd (scrubVacantMinipool b t a r)) = votes t) \<and>
         (EstimateVoteScrubGas b mp opts = Inl e
            \<longrightarrow> fst (scrubVacantMinipool b t a r)
                  = Some (Err_estimate e) \<and>
                votes (snd (scrubVacantMinipool b t a r)) = votes t)"
  using assms by (simp add: scrubVacantMinipool_def printMessage_def Let_def)

theorem veto_and_estimate_failure_submit_nothing_witness:
  "fst (scrubVacantMinipool (demo_backend True False True) newCheckSoloMigrations 1 (NotOnBeacon 1 5)) = None \<and>
   votes (snd (scrubVacantMinipool (demo_backend True False True) newCheckSoloMigrations 1 (NotOnBeacon 1 5))) = [] \<and>
   fst (scrubVacantMinipool (demo_backend False True True) newCheckSoloMigrations 1 (NotOnBeacon 1 5))
     = Some (Err_estimate (Err ''execution reverted'')) \<and>
   votes (snd (scrubVacantMinipool (demo_backend False True True) newCheckSoloMigrations 1 (NotOnBeacon 1 5))) = []"
proof -
  let ?opts = "\<lparr>GasFeeCap = 0, GasTipCap = 0, GasLimit = 0\<rparr>"
  let ?g = "\<lparr>EstGasLimit = 100000, SafeGasLimit = 150000\<rparr>"
  have v: "EstimateVoteScrubGas (demo_backend True False True) 1 ?opts = Inr ?g \<and>
           \<not> PrintAndCheckGasInfo (demo_backend True False True) ?g (WatchtowerMaxFee (demo_backend True False True))"
    by (simp add: demo_backend_def)
  have f: "EstimateVoteScrubGas (demo_backend False True True) 1 ?opts = Inl (Err ''execution reverted'')"
    by (simp add: demo_backend_def)
  have n: "votes newCheckSoloMigrations = []"
    by (simp add: newCheckSoloMigrations_def)
  from veto_and_estimate_failure_submit_nothing
         [of "demo_backend True False True" 1 1 ?opts ?g newCheckSoloMigrations "NotOnBeacon 1 5"] v n
  have 1: "fst (scrubVacantMinipool (demo_backend True False True) newCheckSoloMigrations 1 (NotOnBeacon 1 5)) = None \<and>
           votes (snd (scrubVacantMinipool (demo_backend True False True) newCheckSoloMigrations 1 (NotOnBeacon 1 5))) = []"
    by (simp add: demo_backend_def)
  from veto_and_estimate_failure_submit_nothing
         [of "demo_backend False True True" 1 1 ?opts ?g newCheckSoloMigrations "NotOnBeacon 1 5" "Err ''execution reverted''"] f n
  have 2: "fst (scrubVacantMinipool (demo_backend False True True) newCheckSoloMigrations 1 (NotOnBeacon 1 5))
             = Some (Err_estimate (Err ''execution reverted'')) \<and>
           votes (snd (scrubVacantMinipool (demo_backend False True True) newCheckSoloMigrations 1 (NotOnBeacon 1 5))) = []"
    by (simp add: demo_backend_def)
  from 1 2 show ?thesis by simp
qed

subsection \<open>Determinism\<close>

text \<open>
  C9. Two runs of the scan over the same snapshot make the same scrub decisions, whatever
  the collaborators answer, whatever their wall clock shows and whatever the task had logged
  or decided before: the decisions are those of \<open>snapshotDecisions\<close>, a function of the
  snapshot alone, and the block time it compares with is computed from the snapshot's
  genesis time, seconds per slot and slot number.
\<close>

theorem classification_is_a_function_of_the_snapshot:
  "new_scrubs t1 (snd (checkSoloMigrations b1 s t1)) = new_scrubs t2 (snd (checkSoloMigrations b2 s t2)) \<and>
   new_scrubs t1 (snd (checkSoloMigrations b1 s t1)) = snapshotDecisions s \<and>
   blockTime s = time_Unix (GenesisTime (BeaconConfig s))
                   + sint (BeaconSlotNumber s * SecondsPerSlot (BeaconConfig s) * Second)"
  by (simp add: new_scrubs_checkSoloMigrations blockTime_def Time_Add_def Let_def)

subsection \<open>The balance buffer\<close>





end
